theory Spec2Isabelle
  imports Complex_Main "HOL-Library.Word"
begin

unbundle bit_operations_syntax

section \<open>Strings, bytes and the library functions the scanner relies on\<close>

text \<open>
  JavaScript strings are modelled as \<open>string\<close> (a list of 8-bit characters); the case
  conversions act on the ASCII letters and leave every other character alone.  A
  \<open>Buffer\<close> is a list of bytes.  \<open>Buffer.from(data, 'base64')\<close> belongs to the
  platform, not to the repository: every function that calls it takes the decoder as
  its first argument, and a decoder result \<open>None\<close> stands for the call throwing (each
  call site sits inside a \<open>try\<close> block).
\<close>

type_synonym byte = "8 word"

type_synonym decoder = "string \<Rightarrow> byte list option"

definition toLowerChar :: "char \<Rightarrow> char" where
  "toLowerChar c =
     (let n = (of_char c :: nat) in if 65 \<le> n \<and> n \<le> 90 then char_of (n + 32) else c)"

definition toUpperChar :: "char \<Rightarrow> char" where
  "toUpperChar c =
     (let n = (of_char c :: nat) in if 97 \<le> n \<and> n \<le> 122 then char_of (n - 32) else c)"

definition toLowerCase :: "string \<Rightarrow> string" where
  "toLowerCase s = map toLowerChar s"

definition toUpperCase :: "string \<Rightarrow> string" where
  "toUpperCase s = map toUpperChar s"

definition startsWith :: "string \<Rightarrow> string \<Rightarrow> bool" where
  "startsWith s p = (take (length p) s = p)"

fun includes_str :: "string \<Rightarrow> string \<Rightarrow> bool" where
  "includes_str [] sub = (sub = [])"
| "includes_str (c # cs) sub = (startsWith (c # cs) sub \<or> includes_str cs sub)"

text \<open>\<open>s.substring(a, b)\<close> for non-negative integer arguments: both are clamped to the
  length and swapped when out of order.\<close>

definition substring :: "string \<Rightarrow> nat \<Rightarrow> nat \<Rightarrow> string" where
  "substring s a b =
     (let a' = min a (length s); b' = min b (length s);
          lo = min a' b'; hi = max a' b'
      in take (hi - lo) (drop lo s))"

text \<open>\<open>xs.some(p)\<close>.\<close>

definition some :: "'a list \<Rightarrow> ('a \<Rightarrow> bool) \<Rightarrow> bool" where
  "some xs p = list_ex p xs"

text \<open>\<open>buffer.toString('hex')\<close>: two lowercase hexadecimal digits per byte.\<close>

definition hexDigit :: "nat \<Rightarrow> char" where
  "hexDigit n = ''0123456789abcdef'' ! n"

definition hexOfByte :: "byte \<Rightarrow> string" where
  "hexOfByte b = [hexDigit (unat b div 16), hexDigit (unat b mod 16)]"

definition toHex :: "byte list \<Rightarrow> string" where
  "toHex buffer = concat (map hexOfByte buffer)"

text \<open>\<open>buffer.readUInt16LE(offset)\<close>: the byte at \<open>offset\<close> is the low byte; reading past
  the end throws a \<open>RangeError\<close>, here \<open>None\<close>.\<close>

definition readUInt16LE :: "byte list \<Rightarrow> nat \<Rightarrow> nat option" where
  "readUInt16LE buffer off =
     (if off + 2 \<le> length buffer
      then Some (unat (buffer ! off) + 256 * unat (buffer ! (off + 1)))
      else None)"

subsection \<open>A reference decoder for the examples\<close>

text \<open>
  The standard base64 alphabet with \<open>=\<close> padding (RFC 4648), four characters at a time.
  It is the decoder the concrete examples below are run with; the general theorems hold
  for every decoder.
\<close>

definition b64alphabet :: string where
  "b64alphabet = ''ABCDEFGHIJKLMNOPQRSTUVWXYZabcdefghijklmnopqrstuvwxyz0123456789+/''"

fun indexOf :: "char list \<Rightarrow> char \<Rightarrow> nat option" where
  "indexOf [] c = None"
| "indexOf (x # xs) c = (if x = c then Some 0 else map_option Suc (indexOf xs c))"

definition b64val :: "char \<Rightarrow> nat option" where
  "b64val c = indexOf b64alphabet c"

fun base64 :: decoder where
  "base64 [] = Some []"
| "base64 [a, b, c, d] =
     (case (b64val a, b64val b) of
        (Some x, Some y) \<Rightarrow>
          (if c = CHR ''='' \<and> d = CHR ''='' then Some [of_nat ((x * 64 + y) div 16)]
           else case b64val c of
             None \<Rightarrow> None
           | Some z \<Rightarrow>
               (if d = CHR ''=''
                then Some [of_nat ((x * 64 + y) div 16), of_nat (((y * 64 + z) div 4) mod 256)]
                else case b64val d of
                  None \<Rightarrow> None
                | Some w \<Rightarrow>
                    Some [of_nat ((x * 64 + y) div 16), of_nat (((y * 64 + z) div 4) mod 256),
                          of_nat ((z * 64 + w) mod 256)]))
      | _ \<Rightarrow> None)"
| "base64 (a # b # c # d # rest) =
     (case (b64val a, b64val b, b64val c, b64val d, base64 rest) of
        (Some x, Some y, Some z, Some w, Some bs) \<Rightarrow>
          Some (of_nat ((x * 64 + y) div 16) # of_nat (((y * 64 + z) div 4) mod 256) #
                of_nat ((z * 64 + w) mod 256) # bs)
      | _ \<Rightarrow> None)"
| "base64 _ = None"

section \<open>Data model\<close>

text \<open>The fields of the radio library's \<open>Device\<close> that the scanner reads.  A \<open>null\<close>
  field is \<open>None\<close>.\<close>

record Device =
  id_dev :: string
  name_dev :: "string option"
  localName :: "string option"
  rssi :: "int option"
  manufacturerData :: "string option"
  serviceUUIDs_dev :: "string list option"

datatype DeviceType = airtag | iphone | android | headphones | unknown

text \<open>\<open>BLEDevice\<close> of \<open>types/ble\<close>; \<open>lastSeen\<close> is a \<open>Date\<close>, kept as its millisecond
  count.  Optional fields are options.\<close>

record BLEDevice =
  id_ble :: string
  name_ble :: string
  type_ble :: DeviceType
  distance :: real
  signalStrength :: int
  isConnected :: bool
  isFavorite :: bool
  lastSeen :: nat
  batteryLevel :: "int option"
  manufacturer :: "string option"
  serviceUUIDs :: "string list option"
  advertisementData :: "string option"
  txPower :: "int option"
  isConnectable :: "bool option"

text \<open>JavaScript truthiness of a nullable string: \<open>null\<close> and the empty string are
  falsy.\<close>

definition truthy :: "string option \<Rightarrow> bool" where
  "truthy s = (case s of None \<Rightarrow> False | Some v \<Rightarrow> v \<noteq> [])"

text \<open>\<open>device.localName || device.name || dflt\<close>.\<close>

definition nameOr :: "Device \<Rightarrow> string \<Rightarrow> string" where
  "nameOr device dflt =
     (if truthy (localName device) then the (localName device)
      else if truthy (name_dev device) then the (name_dev device)
      else dflt)"

text \<open>\<open>device.serviceUUIDs || []\<close> (an array, even an empty one, is truthy).\<close>

definition uuidsOr :: "Device \<Rightarrow> string list" where
  "uuidsOr device = (case serviceUUIDs_dev device of None \<Rightarrow> [] | Some us \<Rightarrow> us)"

section \<open>The classifier (\<open>RealBLEService\<close>)\<close>

definition parseManufacturerData :: "decoder \<Rightarrow> string \<Rightarrow> string \<Rightarrow> string option" where
  "parseManufacturerData dec data manufacturerId =
     (case dec data of
        None \<Rightarrow> None
      | Some buffer \<Rightarrow>
          (let hex = toHex buffer
           in if startsWith (toLowerCase hex) (toLowerCase manufacturerId)
              then Some hex else None))"

definition findMyServiceUUID :: string where
  "findMyServiceUUID = ''7DFC9000-7D1C-4951-86AA-8D9728F8D66C''"

definition isAirTag :: "string \<Rightarrow> string list \<Rightarrow> bool" where
  "isAirTag manufacturerData' serviceUUIDs' =
     (let hasAppleData = startsWith manufacturerData' ''004c'';
          hasFindMyService =
            some serviceUUIDs'
              (\<lambda>uuid. includes_str (toUpperCase uuid) (toUpperCase findMyServiceUUID));
          hasAirTagPattern =
            (length manufacturerData' \<ge> 8 \<and> substring manufacturerData' 4 6 = ''12'')
      in hasAppleData \<and> (hasFindMyService \<or> hasAirTagPattern))"

definition handoffServiceUUID :: string where
  "handoffServiceUUID = ''D0611E78-BBB4-4591-A5F8-487910AE4366''"

definition airdropServiceUUID :: string where
  "airdropServiceUUID = ''7BA94D80-5DAD-4544-8CF4-370E39BB1CA0''"

definition isIPhone :: "string \<Rightarrow> string list \<Rightarrow> string \<Rightarrow> bool" where
  "isIPhone manufacturerData' serviceUUIDs' name =
     (let hasHandoff =
            some serviceUUIDs'
              (\<lambda>uuid. includes_str (toUpperCase uuid) (toUpperCase handoffServiceUUID));
          hasAirDrop =
            some serviceUUIDs'
              (\<lambda>uuid. includes_str (toUpperCase uuid) (toUpperCase airdropServiceUUID));
          nameIndicatesIPhone = (includes_str name ''iphone'' \<or> includes_str name ''ios'')
      in hasHandoff \<or> hasAirDrop \<or> nameIndicatesIPhone)"

definition audioServiceUUIDs :: "string list" where
  "audioServiceUUIDs =
     [''0000110B-0000-1000-8000-00805F9B34FB'',
      ''0000110A-0000-1000-8000-00805F9B34FB'',
      ''0000111E-0000-1000-8000-00805F9B34FB'']"

definition isAudioDevice :: "string list \<Rightarrow> string \<Rightarrow> bool" where
  "isAudioDevice serviceUUIDs' name =
     (let hasAudioService =
            some serviceUUIDs'
              (\<lambda>uuid. some audioServiceUUIDs
                 (\<lambda>audioUUID. includes_str (toUpperCase uuid) (toUpperCase audioUUID)));
          nameIndicatesAudio =
            (includes_str name ''airpods'' \<or> includes_str name ''headphones'' \<or>
             includes_str name ''speaker'' \<or> includes_str name ''beats'')
      in hasAudioService \<or> nameIndicatesAudio)"

definition androidManufacturerIds :: "string list" where
  "androidManufacturerIds = [''00e0'', ''0075'', ''001d'']"

text \<open>The Android test reads the advertisement string as delivered (not its decoded
  bytes), as the source does.\<close>

definition isAndroidDevice :: "string option \<Rightarrow> string \<Rightarrow> bool" where
  "isAndroidDevice manufacturerData' name =
     (if \<not> truthy manufacturerData' then False
      else
        (let hasAndroidManufacturer =
               some androidManufacturerIds
                 (\<lambda>i. startsWith (toLowerCase (the manufacturerData')) i);
             nameIndicatesAndroid =
               (includes_str name ''android'' \<or> includes_str name ''pixel'' \<or>
                includes_str name ''samsung'')
         in hasAndroidManufacturer \<or> nameIndicatesAndroid))"

definition identifyDeviceType :: "decoder \<Rightarrow> Device \<Rightarrow> DeviceType" where
  "identifyDeviceType dec device =
     (let name = toLowerCase (nameOr device []);
          manufacturerData' = manufacturerData device;
          serviceUUIDs' = uuidsOr device;
          apple =
            (if truthy manufacturerData'
             then (case parseManufacturerData dec (the manufacturerData') ''004c'' of
                     None \<Rightarrow> None
                   | Some appleManufacturerData \<Rightarrow>
                       if isAirTag appleManufacturerData serviceUUIDs' then Some airtag
                       else if isIPhone appleManufacturerData serviceUUIDs' name then Some iphone
                       else None)
             else None)
      in case apple of
           Some t \<Rightarrow> t
         | None \<Rightarrow>
             if isAudioDevice serviceUUIDs' name then headphones
             else if isAndroidDevice manufacturerData' name then android
             else unknown)"

text \<open>\<open>extractManufacturer\<close>: the vendor name looked up from the little-endian 16-bit
  id at the start of the payload; a decoding or range error is caught and gives
  \<open>'Unknown'\<close>.  The table lookup \<open>manufacturerMap[id] || 'Unknown'\<close> is the chain of
  comparisons.\<close>

definition manufacturerMap :: "nat \<Rightarrow> string option" where
  "manufacturerMap n =
     (if n = 0x004C then Some ''Apple''
      else if n = 0x00E0 then Some ''Google''
      else if n = 0x0075 then Some ''Samsung''
      else if n = 0x001D then Some ''Qualcomm''
      else if n = 0x000F then Some ''Broadcom''
      else None)"

definition extractManufacturer :: "decoder \<Rightarrow> Device \<Rightarrow> string" where
  "extractManufacturer dec device =
     (if \<not> truthy (manufacturerData device) then ''Unknown''
      else case dec (the (manufacturerData device)) of
        None \<Rightarrow> ''Unknown''
      | Some buffer \<Rightarrow>
          (case readUInt16LE buffer 0 of
             None \<Rightarrow> ''Unknown''
           | Some manufacturerId \<Rightarrow>
               (case manufacturerMap manufacturerId of
                  Some n \<Rightarrow> n
                | None \<Rightarrow> ''Unknown'')))"

text \<open>\<open>extractBatteryLevel\<close> decodes the payload inside a \<open>try\<close>, uses nothing of it
  and returns \<open>undefined\<close> on every path.\<close>

definition extractBatteryLevel :: "decoder \<Rightarrow> Device \<Rightarrow> int option" where
  "extractBatteryLevel dec device = None"

section \<open>The proximity estimator\<close>

text \<open>
  \<open>calculateDistance(rssi, txPower = -59)\<close>.  JavaScript numbers are taken as real
  numbers and \<open>Math.pow(10, r)\<close> as \<open>10 powr r\<close>; the signal strength is an integer.
  An omitted \<open>txPower\<close> is \<open>None\<close>.
\<close>

definition calculateDistance :: "int \<Rightarrow> int option \<Rightarrow> real" where
  "calculateDistance rssi' txPower' =
     (let tx = (case txPower' of None \<Rightarrow> - 59 | Some t \<Rightarrow> t)
      in if rssi' = 0 then - 1
         else
           (let ratio = real_of_int (tx - rssi') / 20;
                d = 10 powr ratio
            in max (1 / 10) (min 100 d)))"

text \<open>\<open>device.rssi || -100\<close>: \<open>null\<close> and \<open>0\<close> are falsy.\<close>

definition rssiOr :: "Device \<Rightarrow> int" where
  "rssiOr device = (case rssi device of None \<Rightarrow> - 100 | Some r \<Rightarrow> if r = 0 then - 100 else r)"

text \<open>\<open>processBLEDevice\<close>; \<open>now\<close> is the value of \<open>new Date()\<close>.\<close>

definition processBLEDevice :: "decoder \<Rightarrow> nat \<Rightarrow> Device \<Rightarrow> BLEDevice" where
  "processBLEDevice dec now device =
     (let deviceType = identifyDeviceType dec device;
          distance' = calculateDistance (rssiOr device) None
      in \<lparr> id_ble = id_dev device,
           name_ble = nameOr device ''Unknown Device'',
           type_ble = deviceType,
           distance = distance',
           signalStrength = rssiOr device,
           isConnected = False,
           isFavorite = False,
           lastSeen = now,
           batteryLevel = extractBatteryLevel dec device,
           manufacturer = Some (extractManufacturer dec device),
           serviceUUIDs = Some (uuidsOr device),
           advertisementData = manufacturerData device,
           txPower = None,
           isConnectable = None \<rparr>)"

section \<open>The registries\<close>

text \<open>
  The service keeps \<open>discoveredDevices\<close>, a \<open>Map\<close> from device id to record.  The scan
  callback, for a delivered device, processes it, stores the record under the device's
  id and hands the record to the screen's \<open>onDeviceFound\<close>.  Its other branch, a scan
  error, stops the scan and returns without touching a record.
\<close>

definition scanCallback ::
  "decoder \<Rightarrow> nat \<Rightarrow> (string \<rightharpoonup> BLEDevice) \<Rightarrow> Device \<Rightarrow> (string \<rightharpoonup> BLEDevice) \<times> BLEDevice" where
  "scanCallback dec now discoveredDevices device =
     (let bleDevice = processBLEDevice dec now device
      in (discoveredDevices(id_dev device \<mapsto> bleDevice), bleDevice))"

text \<open>\<open>xs.findIndex(p)\<close>: the first index whose element satisfies \<open>p\<close>, or \<open>-1\<close>.\<close>

fun findIndex :: "'a list \<Rightarrow> ('a \<Rightarrow> bool) \<Rightarrow> int" where
  "findIndex [] p = - 1"
| "findIndex (x # xs) p =
     (if p x then 0 else (let i = findIndex xs p in if i < 0 then - 1 else i + 1))"

text \<open>The Scanner screen's state updater (\<open>app/(tabs)/index.tsx\<close>, \<open>startScanning\<close>).\<close>

definition scannerOnDeviceFound :: "BLEDevice list \<Rightarrow> BLEDevice \<Rightarrow> BLEDevice list" where
  "scannerOnDeviceFound prev device =
     (let existingIndex = findIndex prev (\<lambda>d. id_ble d = id_ble device)
      in if existingIndex \<ge> 0
         then prev[nat existingIndex :=
                     device\<lparr>isFavorite := isFavorite (prev ! nat existingIndex)\<rparr>]
         else prev @ [device])"

text \<open>The Map screen's state updater (\<open>checkPermissionsAndStartScanning\<close>).\<close>

definition mapOnDeviceFound :: "BLEDevice list \<Rightarrow> BLEDevice \<Rightarrow> BLEDevice list" where
  "mapOnDeviceFound prev device =
     (let existingIndex = findIndex prev (\<lambda>d. id_ble d = id_ble device)
      in if existingIndex \<ge> 0
         then prev[nat existingIndex := device]
         else prev @ [device])"

text \<open>
  The Scanner screen together with the service and the key-value store: the screen's
  \<open>devices\<close>, the service's \<open>discoveredDevices\<close>, and the value stored under the key
  \<open>'ble_favorites'\<close> (the identifier array that \<open>JSON.stringify\<close> writes and
  \<open>JSON.parse\<close> reads back; \<open>None\<close> when the key is absent).
\<close>

record Scanner =
  devices :: "BLEDevice list"
  discovered :: "string \<rightharpoonup> BLEDevice"
  ble_favorites :: "string list option"

text \<open>One advertisement delivered while the Scanner screen is scanning.\<close>

definition observe :: "decoder \<Rightarrow> nat \<Rightarrow> Device \<Rightarrow> Scanner \<Rightarrow> Scanner" where
  "observe dec now device st =
     (case scanCallback dec now (discovered st) device of
        (discoveredDevices, bleDevice) \<Rightarrow>
          st\<lparr>discovered := discoveredDevices,
             devices := scannerOnDeviceFound (devices st) bleDevice\<rparr>)"

text \<open>A sequence of advertisements, each with the time it is processed at, delivered in
  order.\<close>

fun observeAll :: "decoder \<Rightarrow> (nat \<times> Device) list \<Rightarrow> Scanner \<Rightarrow> Scanner" where
  "observeAll dec [] st = st"
| "observeAll dec ((now, device) # ads) st = observeAll dec ads (observe dec now device st)"

text \<open>\<open>saveFavorites\<close>: a failing write is caught and logged, and the store keeps its
  old value; \<open>writeOk\<close> says whether \<open>AsyncStorage.setItem\<close> succeeds.\<close>

definition saveFavorites :: "bool \<Rightarrow> string list \<Rightarrow> string list option \<Rightarrow> string list option" where
  "saveFavorites writeOk favorites stored = (if writeOk then Some favorites else stored)"

definition loadFavorites :: "string list option \<Rightarrow> string list" where
  "loadFavorites stored = (case stored of None \<Rightarrow> [] | Some favorites \<Rightarrow> favorites)"

text \<open>
  \<open>toggleFavorite\<close> of the Scanner screen.  The state update flips the flag in the
  list the state holds when the update runs (\<open>prev\<close>, here \<open>devices st\<close>); the
  identifiers to save are computed from \<open>devices\<close>, the list the function captured at
  the render it was created in, here the argument \<open>captured\<close>.  The two are the same
  list when the screen has rendered again since the state last changed.
\<close>

definition flipFavorite :: "string \<Rightarrow> BLEDevice list \<Rightarrow> BLEDevice list" where
  "flipFavorite deviceId ds =
     map (\<lambda>device. if id_ble device = deviceId
                    then device\<lparr>isFavorite := \<not> isFavorite device\<rparr>
                    else device) ds"

definition toggleFavorite :: "bool \<Rightarrow> string \<Rightarrow> BLEDevice list \<Rightarrow> Scanner \<Rightarrow> Scanner" where
  "toggleFavorite writeOk deviceId captured st =
     (let updatedDevices = flipFavorite deviceId captured;
          favoriteIds = map id_ble (filter isFavorite updatedDevices)
      in st\<lparr>devices := flipFavorite deviceId (devices st),
            ble_favorites := saveFavorites writeOk favoriteIds (ble_favorites st)\<rparr>)"

section \<open>Example inputs\<close>

text \<open>Payload bytes \<open>00 4c 12 19\<close> (base64 \<open>AEwSGQ==\<close>) and \<open>4c 00 12 19\<close> (base64
  \<open>TAASGQ==\<close>).\<close>

definition tagDevice :: Device where
  "tagDevice =
     \<lparr> id_dev = ''A'', name_dev = None, localName = None, rssi = Some (- 70),
       manufacturerData = Some ''AEwSGQ=='', serviceUUIDs_dev = Some [] \<rparr>"


definition littleEndianDevice :: Device where
  "littleEndianDevice =
     \<lparr> id_dev = ''L'', name_dev = Some ''John's iPhone'', localName = None, rssi = Some (- 59),
       manufacturerData = Some ''TAASGQ=='', serviceUUIDs_dev = Some [] \<rparr>"

definition silentDevice :: Device where
  "silentDevice =
     \<lparr> id_dev = ''S'', name_dev = None, localName = None, rssi = Some 0,
       manufacturerData = None, serviceUUIDs_dev = None \<rparr>"

definition nearDevice :: Device where
  "nearDevice =
     \<lparr> id_dev = ''A'', name_dev = None, localName = None, rssi = Some (- 50),
       manufacturerData = None, serviceUUIDs_dev = None \<rparr>"

definition connectedRecord :: BLEDevice where
  "connectedRecord =
     \<lparr> id_ble = ''A'', name_ble = ''Unknown Device'', type_ble = unknown, distance = 1,
       signalStrength = - 59, isConnected = True, isFavorite = True, lastSeen = 1,
       batteryLevel = None, manufacturer = Some ''Unknown'', serviceUUIDs = Some [],
       advertisementData = None, txPower = None, isConnectable = None \<rparr>"

definition staleStore :: Scanner where
  "staleStore =
     \<lparr> devices = [connectedRecord\<lparr>isFavorite := False\<rparr>], discovered = Map.empty,
       ble_favorites = Some [''X''] \<rparr>"

definition syncedStore :: Scanner where
  "syncedStore =
     \<lparr> devices = [connectedRecord], discovered = Map.empty, ble_favorites = Some [''A''] \<rparr>"


definition quietDevice :: Device where
  "quietDevice =
     \<lparr> id_dev = ''Q'', name_dev = None, localName = None, rssi = None,
       manufacturerData = None, serviceUUIDs_dev = None \<rparr>"

definition emptyScanner :: Scanner where
  "emptyScanner = \<lparr> devices = [], discovered = Map.empty, ble_favorites = None \<rparr>"

section \<open>Hexadecimal rendering and the vendor test\<close>

lemma base64_tag: "base64 ''AEwSGQ=='' = Some [0x00, 0x4c, 0x12, 0x19]"
  by (simp add: b64val_def b64alphabet_def)

lemma base64_le: "base64 ''TAASGQ=='' = Some [0x4c, 0x00, 0x12, 0x19]"
  by (simp add: b64val_def b64alphabet_def)

lemma toHex_Cons: "toHex (b # bs) = hexOfByte b @ toHex bs"
  by (simp add: toHex_def)

lemma toHex_Nil: "toHex [] = []"
  by (simp add: toHex_def)

lemma length_hexOfByte: "length (hexOfByte b) = 2"
  by (simp add: hexOfByte_def)

lemma length_toHex: "length (toHex bs) = 2 * length bs"
  by (induction bs) (simp_all add: toHex_Nil toHex_Cons length_hexOfByte)

lemma hex00: "hexOfByte 0x00 = ''00''"
  by (simp add: hexOfByte_def hexDigit_def)

lemma hex4c: "hexOfByte 0x4c = ''4c''"
  by (simp add: hexOfByte_def hexDigit_def)

lemma tag_hex: "toHex [0x00, 0x4c, 0x12, 0x19] = ''004c1219''"
  by (simp add: toHex_def hexOfByte_def hexDigit_def)

lemma lower004c: "toLowerCase ''004c'' = ''004c''"
  by (simp add: toLowerCase_def toLowerChar_def)

lemma hexDigit_lower_upto: "\<forall>n \<in> set [0..<16]. toLowerChar (hexDigit n) = hexDigit n"
  by code_simp

lemma hexDigit_lower: "n < 16 \<Longrightarrow> toLowerChar (hexDigit n) = hexDigit n"
  using hexDigit_lower_upto by simp

lemma hexOfByte_lower: "toLowerCase (hexOfByte b) = hexOfByte b"
proof -
  have "unat b < 256" using unsigned_less [of b] by simp
  then have "unat b div 16 < 16" by simp
  moreover have "unat b mod 16 < 16" by simp
  ultimately show ?thesis
    by (simp add: toLowerCase_def hexOfByte_def hexDigit_lower)
qed

text \<open>The rendering is already lowercase, so the \<open>toLowerCase\<close> in
  \<open>parseManufacturerData\<close> changes nothing.\<close>

lemma toHex_lower: "toLowerCase (toHex bs) = toHex bs"
proof (induction bs)
  case Nil
  show ?case by (simp add: toHex_Nil toLowerCase_def)
next
  case (Cons b bs)
  have "toLowerCase (hexOfByte b @ toHex bs) = toLowerCase (hexOfByte b) @ toLowerCase (toHex bs)"
    by (simp add: toLowerCase_def)
  then show ?case using Cons by (simp add: toHex_Cons hexOfByte_lower)
qed

lemma hexDigit_inj_upto:
  "\<forall>m \<in> set [0..<16]. \<forall>n \<in> set [0..<16]. hexDigit m = hexDigit n \<longrightarrow> m = n"
  by code_simp

lemma hexDigit_inj: "m < 16 \<Longrightarrow> n < 16 \<Longrightarrow> hexDigit m = hexDigit n \<Longrightarrow> m = n"
  using hexDigit_inj_upto by simp

lemma hexOfByte_inj: "hexOfByte a = hexOfByte b \<Longrightarrow> a = b"
proof -
  assume eq: "hexOfByte a = hexOfByte b"
  have a: "unat a < 256" using unsigned_less [of a] by simp
  have b: "unat b < 256" using unsigned_less [of b] by simp
  have d: "unat a div 16 = unat b div 16"
    using eq a b by (intro hexDigit_inj) (simp_all add: hexOfByte_def)
  have m: "unat a mod 16 = unat b mod 16"
    using eq by (intro hexDigit_inj) (simp_all add: hexOfByte_def)
  have "unat a = unat b"
    using d m by (metis div_mult_mod_eq)
  then show ?thesis by (simp add: word_unat_eq_iff)
qed

lemma startsWith_decompose: "startsWith s p \<Longrightarrow> s = p @ drop (length p) s"
  by (metis append_take_drop_id startsWith_def)

text \<open>The classifier's vendor test \<open>parseManufacturerData data '004c'\<close> succeeds exactly
  on the payloads whose first byte is \<open>00\<close> and whose second byte is \<open>4c\<close>.\<close>

lemma parse_apple_iff:
  "parseManufacturerData dec data ''004c'' \<noteq> None
     \<longleftrightarrow> (\<exists>rest. dec data = Some (0x00 # 0x4c # rest))"
proof
  assume "parseManufacturerData dec data ''004c'' \<noteq> None"
  then obtain buffer where b: "dec data = Some buffer" and sw: "startsWith (toHex buffer) ''004c''"
    by (auto simp: parseManufacturerData_def Let_def toHex_lower lower004c
             split: option.splits if_splits)
  from sw have "length (take (length ''004c'') (toHex buffer)) = length ''004c''"
    unfolding startsWith_def by (rule arg_cong)
  then have len: "4 \<le> length (toHex buffer)"
    by simp
  then have "2 \<le> length buffer" by (simp add: length_toHex)
  then obtain x y rest where buf: "buffer = x # y # rest"
    by (cases buffer; cases "tl buffer") auto
  from sw have "hexOfByte x @ hexOfByte y = ''004c''"
    by (simp add: buf toHex_Cons startsWith_def length_hexOfByte)
  then have "hexOfByte x @ hexOfByte y = hexOfByte 0x00 @ hexOfByte 0x4c"
    by (simp only: hex00 hex4c append.simps)
  then have "hexOfByte x = hexOfByte 0x00 \<and> hexOfByte y = hexOfByte 0x4c"
    by (simp add: length_hexOfByte)
  then have "x = 0x00 \<and> y = 0x4c"
    by (blast dest: hexOfByte_inj)
  then show "\<exists>rest. dec data = Some (0x00 # 0x4c # rest)"
    using b buf by simp
next
  assume "\<exists>rest. dec data = Some (0x00 # 0x4c # rest)"
  then obtain rest where d: "dec data = Some (0x00 # 0x4c # rest)" by blast
  have "startsWith (toHex (0x00 # 0x4c # rest)) ''004c''"
    by (simp add: toHex_Cons hex00 hex4c startsWith_def)
  with d show "parseManufacturerData dec data ''004c'' \<noteq> None"
    by (simp add: parseManufacturerData_def Let_def toHex_lower lower004c)
qed

lemma readUInt16LE_two: "readUInt16LE (x # y # rest) 0 = Some (unat x + 256 * unat y)"
  by (simp add: readUInt16LE_def)

text \<open>Read the way \<open>extractManufacturer\<close> reads it, the id of a payload that passes the
  classifier's vendor test is \<open>0x4C00\<close>.\<close>

lemma apple_test_vendor_id:
  assumes "parseManufacturerData dec data ''004c'' \<noteq> None"
  shows "\<exists>buffer. dec data = Some buffer \<and> readUInt16LE buffer 0 = Some 0x4C00"
proof -
  from assms obtain rest where "dec data = Some (0x00 # 0x4c # rest)"
    using parse_apple_iff by blast
  then show ?thesis by (simp add: readUInt16LE_two)
qed

section \<open>Classification\<close>


lemma classify_tracker_first:
  "truthy (manufacturerData device) \<Longrightarrow>
   parseManufacturerData dec (the (manufacturerData device)) ''004c'' = Some hex \<Longrightarrow>
   isAirTag hex (uuidsOr device) \<Longrightarrow>
   identifyDeviceType dec device = airtag"
  by (simp add: identifyDeviceType_def Let_def)

lemma isAirTag_marker:
  assumes "startsWith hex ''004c12''" "8 \<le> length hex"
  shows "isAirTag hex uuids"
proof -
  obtain r where h: "hex = ''004c12'' @ r"
    using startsWith_decompose [OF assms(1)] by blast
  show ?thesis using assms(2)
    by (simp add: h isAirTag_def Let_def startsWith_def substring_def)
qed

lemma tracker_hex_prefix:
  assumes "manufacturerData device = Some data" "data \<noteq> []"
      and "dec data = Some buffer" "startsWith (toHex buffer) ''004c1219''"
  shows "parseManufacturerData dec data ''004c'' = Some (toHex buffer)
         \<and> identifyDeviceType dec device = airtag"
proof -
  obtain r where h: "toHex buffer = ''004c1219'' @ r"
    using startsWith_decompose [OF assms(4)] by blast
  have sw: "startsWith (toHex buffer) ''004c''"
    by (simp add: h startsWith_def)
  have p: "parseManufacturerData dec data ''004c'' = Some (toHex buffer)"
    using assms(3) sw by (simp add: parseManufacturerData_def Let_def toHex_lower lower004c)
  have a: "isAirTag (toHex buffer) (uuidsOr device)"
    by (rule isAirTag_marker) (simp_all add: h startsWith_def)
  have "identifyDeviceType dec device = airtag"
    using assms(1,2) p a by (intro classify_tracker_first) (simp_all add: truthy_def)
  with p show ?thesis by simp
qed

lemma lower_iphone: "toLowerCase ''John's iPhone'' = ''john's iphone''"
  by code_simp














text \<open>
  Claim C9.  A device whose payload renders as hexadecimal \<open>004c1219...\<close> and that
  advertises no service identifiers passes the classifier's vendor test for \<open>004c\<close> and
  is classified \<open>airtag\<close>.
\<close>

theorem scenario_tracker:
  assumes "manufacturerData device = Some data" "data \<noteq> []"
      and "dec data = Some buffer" "startsWith (toHex buffer) ''004c1219''"
      and "uuidsOr device = []"
  shows "parseManufacturerData dec data ''004c'' = Some (toHex buffer)
         \<and> identifyDeviceType dec device = airtag"
  using assms(1-4) by (rule tracker_hex_prefix)

theorem scenario_tracker_witness:
  "manufacturerData tagDevice = Some ''AEwSGQ==''
   \<and> base64 ''AEwSGQ=='' = Some [0x00, 0x4c, 0x12, 0x19]
   \<and> startsWith (toHex [0x00, 0x4c, 0x12, 0x19]) ''004c1219''
   \<and> uuidsOr tagDevice = []
   \<and> identifyDeviceType base64 tagDevice = airtag"
proof -
  have m: "manufacturerData tagDevice = Some ''AEwSGQ==''"
    by (simp add: tagDevice_def)
  have n: "''AEwSGQ=='' \<noteq> []"
    by simp
  have s: "startsWith (toHex [0x00, 0x4c, 0x12, 0x19]) ''004c1219''"
    by (simp add: tag_hex startsWith_def)
  have u: "uuidsOr tagDevice = []"
    by (simp add: tagDevice_def uuidsOr_def)
  show ?thesis
    using scenario_tracker [of tagDevice "''AEwSGQ==''" base64 "[0x00, 0x4c, 0x12, 0x19]",
                            OF m n base64_tag s u]
      m s u base64_tag by blast
qed

text \<open>
  Claim C2.  The payload \<open>4c 00 12 19\<close> has the little-endian vendor id \<open>0x004C\<close>, and
  \<open>extractManufacturer\<close> names it Apple; the classifier's vendor test rejects it, and the
  device, named \<open>John's iPhone\<close> and carrying the type marker, is classified \<open>unknown\<close>.
  The payload \<open>00 4c 12 19\<close> has the little-endian vendor id \<open>0x4C00\<close>, unknown to
  \<open>extractManufacturer\<close>, and is classified \<open>airtag\<close>.
\<close>

theorem vendor_id_byte_order:
  "base64 ''TAASGQ=='' = Some [0x4c, 0x00, 0x12, 0x19]
   \<and> readUInt16LE [0x4c, 0x00, 0x12, 0x19] 0 = Some 0x004C
   \<and> extractManufacturer base64 littleEndianDevice = ''Apple''
   \<and> parseManufacturerData base64 ''TAASGQ=='' ''004c'' = None
   \<and> identifyDeviceType base64 littleEndianDevice = unknown
   \<and> readUInt16LE [0x00, 0x4c, 0x12, 0x19] 0 = Some 0x4C00
   \<and> extractManufacturer base64 tagDevice = ''Unknown''
   \<and> identifyDeviceType base64 tagDevice = airtag"
proof -
  have l: "manufacturerData littleEndianDevice = Some ''TAASGQ==''"
    by (simp add: littleEndianDevice_def)
  have t: "manufacturerData tagDevice = Some ''AEwSGQ==''"
    by (simp add: tagDevice_def)
  have r1: "readUInt16LE [0x4c, 0x00, 0x12, 0x19] 0 = Some 0x004C"
    by (simp add: readUInt16LE_def)
  have r2: "readUInt16LE [0x00, 0x4c, 0x12, 0x19] 0 = Some 0x4C00"
    by (simp add: readUInt16LE_def)
  have e1: "extractManufacturer base64 littleEndianDevice = ''Apple''"
    by (simp add: extractManufacturer_def l truthy_def base64_le r1 manufacturerMap_def
          del: base64.simps)
  have e2: "extractManufacturer base64 tagDevice = ''Unknown''"
    by (simp add: extractManufacturer_def t truthy_def base64_tag r2 manufacturerMap_def
          del: base64.simps)
  have p1: "parseManufacturerData base64 ''TAASGQ=='' ''004c'' = None"
    using parse_apple_iff [of base64 "''TAASGQ==''"] by (simp add: base64_le del: base64.simps)
  have n: "toLowerCase (nameOr littleEndianDevice []) = ''john's iphone''"
    by (simp add: nameOr_def littleEndianDevice_def truthy_def lower_iphone)
  have au: "\<not> isAudioDevice (uuidsOr littleEndianDevice) ''john's iphone''"
    by (simp add: isAudioDevice_def Let_def uuidsOr_def littleEndianDevice_def some_def
          startsWith_def)
  have lo: "toLowerCase ''TAASGQ=='' = ''taasgq==''"
    by code_simp
  have an: "\<not> isAndroidDevice (Some ''TAASGQ=='') ''john's iphone''"
    by (simp add: isAndroidDevice_def Let_def truthy_def lo some_def androidManufacturerIds_def
          startsWith_def)
  have i1: "identifyDeviceType base64 littleEndianDevice = unknown"
    using p1 au an by (simp add: identifyDeviceType_def Let_def l n truthy_def)
  have m: "''AEwSGQ=='' \<noteq> []" by simp
  have s: "startsWith (toHex [0x00, 0x4c, 0x12, 0x19]) ''004c1219''"
    by (simp add: tag_hex startsWith_def)
  have i2: "identifyDeviceType base64 tagDevice = airtag"
    using tracker_hex_prefix [of tagDevice "''AEwSGQ==''" base64 "[0x00, 0x4c, 0x12, 0x19]",
                              OF t m base64_tag s]
    by simp
  show ?thesis
    using base64_le r1 e1 p1 i1 r2 e2 i2 by blast
qed

section \<open>Distance estimation\<close>

lemma calculateDistance_nonzero:
  "rssi' \<noteq> 0 \<Longrightarrow>
   calculateDistance rssi' txPower' =
     max (1 / 10)
       (min 100
          (10 powr (real_of_int ((case txPower' of None \<Rightarrow> - 59 | Some t \<Rightarrow> t) - rssi') / 20)))"
  by (simp add: calculateDistance_def Let_def)

lemma calculateDistance_bounds:
  "rssi' \<noteq> 0 \<Longrightarrow>
   1 / 10 \<le> calculateDistance rssi' txPower' \<and> calculateDistance rssi' txPower' \<le> 100"
  by (simp add: calculateDistance_def Let_def)

lemma calculateDistance_zero: "calculateDistance 0 txPower' = - 1"
  by (simp add: calculateDistance_def)

lemma calculateDistance_mono:
  assumes "s1 \<le> s2" "s1 \<noteq> 0" "s2 \<noteq> 0"
  shows "calculateDistance s2 tx \<le> calculateDistance s1 tx"
proof -
  define t where "t = (case tx of None \<Rightarrow> - 59 | Some t \<Rightarrow> t)"
  define x1 where "x1 = (10::real) powr (real_of_int (t - s1) / 20)"
  define x2 where "x2 = (10::real) powr (real_of_int (t - s2) / 20)"
  have "real_of_int (t - s2) / 20 \<le> real_of_int (t - s1) / 20"
    using assms(1) by simp
  then have le: "x2 \<le> x1"
    unfolding x1_def x2_def by (rule powr_mono) simp
  have e1: "calculateDistance s1 tx = max (1 / 10) (min 100 x1)"
    using assms(2) by (simp add: calculateDistance_def Let_def t_def x1_def)
  have e2: "calculateDistance s2 tx = max (1 / 10) (min 100 x2)"
    using assms(3) by (simp add: calculateDistance_def Let_def t_def x2_def)
  show ?thesis
    unfolding e1 e2 using le by (simp add: min_def max_def)
qed

text \<open>At the substituted signal strength \<open>-100\<close> the estimate sits on the upper clamp.\<close>

lemma calculateDistance_floor: "calculateDistance (- 100) None = 100"
proof -
  have "(10::real) powr 2 \<le> 10 powr (41 / 20)"
    by (rule powr_mono) simp_all
  then have "(100::real) \<le> 10 powr (41 / 20)" by simp
  then show ?thesis
    by (simp add: calculateDistance_def Let_def)
qed

lemma calculateDistance_closer: "calculateDistance (- 50) None < calculateDistance (- 70) None"
proof -
  define x where "x = (10::real) powr (- 9 / 20)"
  define y where "y = (10::real) powr (11 / 20)"
  have lo: "(10::real) powr (- 1) \<le> x"
    unfolding x_def by (rule powr_mono) simp_all
  have up: "x < y"
    unfolding x_def y_def by (rule powr_less_mono) simp_all
  have hi: "y \<le> 10 powr 2"
    unfolding y_def by (rule powr_mono) simp_all
  have "(10::real) powr (- 1) = 1 / 10"
    by (simp add: powr_neg_one)
  with lo have l: "1 / 10 \<le> x"
    by (simp only:)
  have h: "y \<le> 100"
    using hi by simp
  have a: "calculateDistance (- 50) None = max (1 / 10) (min 100 x)"
    by (simp add: calculateDistance_def Let_def x_def)
  have b: "calculateDistance (- 70) None = max (1 / 10) (min 100 y)"
    by (simp add: calculateDistance_def Let_def y_def)
  show ?thesis
    unfolding a b using l up h by (simp add: min_def max_def)
qed

lemma rssiOr_nonzero: "rssiOr device \<noteq> 0"
  by (simp add: rssiOr_def split: option.splits)

lemma rssiOr_missing: "rssi device = None \<or> rssi device = Some 0 \<Longrightarrow> rssiOr device = - 100"
  by (auto simp: rssiOr_def)

lemma process_fields:
  "id_ble (processBLEDevice dec now d) = id_dev d"
  "lastSeen (processBLEDevice dec now d) = now"
  "signalStrength (processBLEDevice dec now d) = rssiOr d"
  "distance (processBLEDevice dec now d) = calculateDistance (rssiOr d) None"
  "isConnected (processBLEDevice dec now d) = False"
  "isFavorite (processBLEDevice dec now d) = False"
  by (simp_all add: processBLEDevice_def Let_def)

text \<open>
  Claim C4.  For a nonzero signal strength the estimate is \<open>10\<close> raised to
  \<open>(reference - signal) / 20\<close>, clamped to \<open>[0.1, 100]\<close>, with the reference given or
  defaulting to \<open>-59\<close>; at signal strength \<open>-59\<close> and the default reference the estimate
  is within \<open>0.01\<close> of \<open>1\<close>.
\<close>

theorem estimate_formula:
  "(rssi' \<noteq> 0 \<longrightarrow>
      calculateDistance rssi' (Some tx)
        = max (1 / 10) (min 100 (10 powr (real_of_int (tx - rssi') / 20)))
      \<and> calculateDistance rssi' None
        = max (1 / 10) (min 100 (10 powr (real_of_int (- 59 - rssi') / 20)))
      \<and> 1 / 10 \<le> calculateDistance rssi' (Some tx) \<and> calculateDistance rssi' (Some tx) \<le> 100
      \<and> 1 / 10 \<le> calculateDistance rssi' None \<and> calculateDistance rssi' None \<le> 100)
   \<and> \<bar>calculateDistance (- 59) None - 1\<bar> \<le> 1 / 100"
  by (simp add: calculateDistance_def Let_def)

theorem estimate_formula_witness:
  "(- 79 :: int) \<noteq> 0 \<and> calculateDistance (- 79) (Some (- 59)) = 10
   \<and> calculateDistance (- 59) None = 1"
  using estimate_formula [of "- 79" "- 59"] by (simp add: calculateDistance_def)

text \<open>
  Claim C6.  Over nonzero signal strengths the estimate does not increase as the signal
  grows stronger, and equal inputs give equal estimates.
\<close>

theorem estimate_monotone:
  "(s1 \<le> s2 \<and> s1 \<noteq> 0 \<and> s2 \<noteq> 0 \<longrightarrow> calculateDistance s2 tx \<le> calculateDistance s1 tx)
   \<and> (s1 = s2 \<longrightarrow> calculateDistance s1 tx = calculateDistance s2 tx)"
  using calculateDistance_mono by blast

theorem estimate_monotone_witness:
  "(- 70 :: int) \<le> - 50 \<and> (- 70 :: int) \<noteq> 0 \<and> (- 50 :: int) \<noteq> 0
   \<and> calculateDistance (- 50) None \<le> calculateDistance (- 70) None"
  using estimate_monotone [of "- 70" "- 50" None] by simp

text \<open>
  Claim C5.  At signal strength \<open>0\<close> the estimator returns \<open>-1\<close>, a value that no nonzero
  signal strength produces; and for a device whose signal strength is \<open>0\<close> or missing,
  \<open>processBLEDevice\<close> stores the default signal strength \<open>-100\<close> and the estimate for it,
  which is not \<open>-1\<close>.
\<close>

theorem unavailable_distinguished:
  "calculateDistance 0 tx = - 1
   \<and> (\<forall>r tx'. r \<noteq> 0 \<longrightarrow> calculateDistance r tx' \<noteq> calculateDistance 0 tx)
   \<and> (rssi device = Some 0 \<or> rssi device = None \<longrightarrow>
        signalStrength (processBLEDevice dec now device) = - 100
        \<and> distance (processBLEDevice dec now device) = calculateDistance (- 100) None
        \<and> distance (processBLEDevice dec now device) \<noteq> calculateDistance 0 tx)"
proof -
  have z: "calculateDistance 0 tx = - 1"
    by (rule calculateDistance_zero)
  have nz: "\<forall>r tx'. r \<noteq> 0 \<longrightarrow> calculateDistance r tx' \<noteq> calculateDistance 0 tx"
  proof (intro allI impI)
    fix r :: int and tx' assume "r \<noteq> 0"
    then have "1 / 10 \<le> calculateDistance r tx'"
      using calculateDistance_bounds by blast
    then show "calculateDistance r tx' \<noteq> calculateDistance 0 tx"
      by (simp add: z)
  qed
  have p: "rssi device = Some 0 \<or> rssi device = None \<longrightarrow>
        signalStrength (processBLEDevice dec now device) = - 100
        \<and> distance (processBLEDevice dec now device) = calculateDistance (- 100) None
        \<and> distance (processBLEDevice dec now device) \<noteq> calculateDistance 0 tx"
  proof
    assume "rssi device = Some 0 \<or> rssi device = None"
    then have r: "rssiOr device = - 100" using rssiOr_missing by blast
    have "calculateDistance (- 100) None \<noteq> calculateDistance 0 tx"
      using nz by simp
    then show "signalStrength (processBLEDevice dec now device) = - 100
        \<and> distance (processBLEDevice dec now device) = calculateDistance (- 100) None
        \<and> distance (processBLEDevice dec now device) \<noteq> calculateDistance 0 tx"
      by (simp add: process_fields r)
  qed
  from z nz p show ?thesis by blast
qed

theorem unavailable_distinguished_witness:
  "rssi quietDevice = None
   \<and> (- 59 :: int) \<noteq> 0 \<and> calculateDistance (- 59) None \<noteq> calculateDistance 0 None
   \<and> signalStrength (processBLEDevice base64 0 quietDevice) = - 100
   \<and> distance (processBLEDevice base64 0 quietDevice) \<noteq> - 1"
proof -
  have q: "rssi quietDevice = None"
    by (simp add: quietDevice_def)
  note t = unavailable_distinguished [of None quietDevice base64 0]
  from t have z: "calculateDistance 0 None = - 1"
    by blast
  from t have "(- 59 :: int) \<noteq> 0 \<longrightarrow> calculateDistance (- 59) None \<noteq> calculateDistance 0 None"
    by blast
  then have a: "calculateDistance (- 59) None \<noteq> calculateDistance 0 None"
    by simp
  from t q have s: "signalStrength (processBLEDevice base64 0 quietDevice) = - 100"
    by blast
  from t q have "distance (processBLEDevice base64 0 quietDevice) \<noteq> calculateDistance 0 None"
    by blast
  with z have d: "distance (processBLEDevice base64 0 quietDevice) \<noteq> - 1"
    by simp
  have n: "(- 59 :: int) \<noteq> 0"
    by simp
  from q n a s d show ?thesis by blast
qed

text \<open>
  Claim C10.  Every record that \<open>processBLEDevice\<close> produces has a distance in
  \<open>[0.1, 100]\<close>, never the estimator's \<open>-1\<close>; for a device whose signal strength is
  missing or \<open>0\<close> the stored signal strength is \<open>-100\<close> and the stored distance is \<open>100\<close>.
\<close>

theorem pipeline_distance:
  "1 / 10 \<le> distance (processBLEDevice dec now device)
   \<and> distance (processBLEDevice dec now device) \<le> 100
   \<and> distance (processBLEDevice dec now device) \<noteq> - 1
   \<and> (rssi device = None \<or> rssi device = Some 0 \<longrightarrow>
        signalStrength (processBLEDevice dec now device) = - 100
        \<and> distance (processBLEDevice dec now device) = 100)"
proof -
  have d: "distance (processBLEDevice dec now device) = calculateDistance (rssiOr device) None"
    by (rule process_fields)
  have b: "1 / 10 \<le> calculateDistance (rssiOr device) None
           \<and> calculateDistance (rssiOr device) None \<le> 100"
    using rssiOr_nonzero by (rule calculateDistance_bounds)
  then have n: "calculateDistance (rssiOr device) None \<noteq> - 1" by simp
  have m: "rssi device = None \<or> rssi device = Some 0 \<longrightarrow>
        signalStrength (processBLEDevice dec now device) = - 100
        \<and> distance (processBLEDevice dec now device) = 100"
  proof
    assume "rssi device = None \<or> rssi device = Some 0"
    then have "rssiOr device = - 100" by (rule rssiOr_missing)
    then show "signalStrength (processBLEDevice dec now device) = - 100
        \<and> distance (processBLEDevice dec now device) = 100"
      by (simp add: process_fields calculateDistance_floor)
  qed
  from b n m show ?thesis unfolding d by blast
qed

theorem pipeline_distance_witness:
  "rssi silentDevice = Some 0
   \<and> signalStrength (processBLEDevice base64 0 silentDevice) = - 100
   \<and> distance (processBLEDevice base64 0 silentDevice) = 100"
proof -
  have s: "rssi silentDevice = Some 0"
    by (simp add: silentDevice_def)
  show ?thesis
    using pipeline_distance [of base64 0 silentDevice] s by simp
qed

section \<open>Merging advertisements\<close>

lemma findIndex_lower: "- 1 \<le> findIndex xs p"
  by (induction xs) (simp_all add: Let_def)

lemma findIndex_found:
  "0 \<le> findIndex xs p \<Longrightarrow> nat (findIndex xs p) < length xs \<and> p (xs ! nat (findIndex xs p))"
proof (induction xs)
  case Nil
  then show ?case by simp
next
  case (Cons x xs)
  show ?case
  proof (cases "p x")
    case True
    then show ?thesis by simp
  next
    case False
    with Cons.prems have ge: "0 \<le> findIndex xs p"
      by (simp add: Let_def split: if_splits)
    then have eq: "findIndex (x # xs) p = findIndex xs p + 1"
      using False by (simp add: Let_def)
    from ge have "nat (findIndex xs p + 1) = Suc (nat (findIndex xs p))" by simp
    with Cons.IH [OF ge] eq show ?thesis by simp
  qed
qed

lemma findIndex_none: "findIndex xs p < 0 \<longleftrightarrow> (\<forall>x \<in> set xs. \<not> p x)"
proof (induction xs)
  case Nil
  show ?case by simp
next
  case (Cons x xs)
  have "- 1 \<le> findIndex xs p" by (rule findIndex_lower)
  with Cons show ?case by (auto simp: Let_def)
qed

lemma findIndex_first:
  "i < length xs \<Longrightarrow> p (xs ! i) \<Longrightarrow> \<forall>j<i. \<not> p (xs ! j) \<Longrightarrow> findIndex xs p = int i"
proof (induction xs arbitrary: i)
  case Nil
  then show ?case by simp
next
  case (Cons x xs)
  show ?case
  proof (cases i)
    case 0
    with Cons.prems show ?thesis by simp
  next
    case (Suc k)
    with Cons.prems have k: "k < length xs" "p (xs ! k)" by simp_all
    from Cons.prems(3) Suc have nx: "\<not> p x" by (metis nth_Cons_0 zero_less_Suc)
    from Cons.prems(3) Suc have "\<forall>j<k. \<not> p (xs ! j)"
      by (metis Suc_less_eq nth_Cons_Suc)
    with Cons.IH k have "findIndex xs p = int k" by blast
    with nx Suc show ?thesis by (simp add: Let_def)
  qed
qed

lemma filter_update_distinct:
  "distinct (map f xs) \<Longrightarrow> i < length xs \<Longrightarrow> f y = f (xs ! i) \<Longrightarrow>
   filter (\<lambda>r. f r = f y) (xs[i := y]) = [y]"
proof (induction xs arbitrary: i)
  case Nil
  then show ?case by simp
next
  case (Cons x xs)
  show ?case
  proof (cases i)
    case 0
    with Cons.prems have "f y \<notin> f ` set xs" by simp
    then have "\<forall>r \<in> set xs. f r \<noteq> f y" by (metis imageI)
    then have "filter (\<lambda>r. f r = f y) xs = []" by (simp add: filter_empty_conv)
    with 0 show ?thesis by simp
  next
    case (Suc k)
    with Cons.prems have k: "k < length xs" "f y = f (xs ! k)" "distinct (map f xs)" by simp_all
    from Cons.prems(1) k(1) have "f x \<noteq> f (xs ! k)" by auto
    with k(2) have "f x \<noteq> f y" by simp
    with Cons.IH [OF k(3) k(1) k(2)] Suc show ?thesis by simp
  qed
qed

lemma map_update_same: "i < length xs \<Longrightarrow> f y = f (xs ! i) \<Longrightarrow> map f (xs[i := y]) = map f xs"
  by (simp add: map_update list_update_same_conv)

lemma scanner_merge_found:
  assumes "0 \<le> findIndex prev (\<lambda>d. id_ble d = id_ble b)"
  shows "scannerOnDeviceFound prev b =
           prev[nat (findIndex prev (\<lambda>d. id_ble d = id_ble b)) :=
                  b\<lparr>isFavorite :=
                      isFavorite (prev ! nat (findIndex prev (\<lambda>d. id_ble d = id_ble b)))\<rparr>]"
  using assms by (simp add: scannerOnDeviceFound_def Let_def)

lemma scanner_merge_new:
  assumes "findIndex prev (\<lambda>d. id_ble d = id_ble b) < 0"
  shows "scannerOnDeviceFound prev b = prev @ [b]"
  using assms by (simp add: scannerOnDeviceFound_def Let_def)

lemma map_merge_found:
  assumes "0 \<le> findIndex prev (\<lambda>d. id_ble d = id_ble b)"
  shows "mapOnDeviceFound prev b = prev[nat (findIndex prev (\<lambda>d. id_ble d = id_ble b)) := b]"
  using assms by (simp add: mapOnDeviceFound_def Let_def)

text \<open>The list keeps one record per id.\<close>

lemma scanner_merge_distinct:
  assumes "distinct (map id_ble prev)"
  shows "distinct (map id_ble (scannerOnDeviceFound prev b))"
proof (cases "0 \<le> findIndex prev (\<lambda>d. id_ble d = id_ble b)")
  case True
  let ?i = "nat (findIndex prev (\<lambda>d. id_ble d = id_ble b))"
  from findIndex_found [OF True]
  have i: "?i < length prev" "id_ble (prev ! ?i) = id_ble b" by simp_all
  have "map id_ble (prev[?i := b\<lparr>isFavorite := isFavorite (prev ! ?i)\<rparr>]) = map id_ble prev"
    using i by (intro map_update_same) simp_all
  with assms show ?thesis by (simp add: scanner_merge_found [OF True])
next
  case False
  then have neg: "findIndex prev (\<lambda>d. id_ble d = id_ble b) < 0" by simp
  then have "\<forall>x \<in> set prev. id_ble x \<noteq> id_ble b" by (simp add: findIndex_none)
  with assms show ?thesis by (auto simp: scanner_merge_new [OF neg])
qed

lemma scanner_merge_filter:
  assumes "distinct (map id_ble prev)"
  shows "\<exists>fav. filter (\<lambda>r. id_ble r = id_ble b) (scannerOnDeviceFound prev b)
                 = [b\<lparr>isFavorite := fav\<rparr>]"
proof (cases "0 \<le> findIndex prev (\<lambda>d. id_ble d = id_ble b)")
  case True
  let ?i = "nat (findIndex prev (\<lambda>d. id_ble d = id_ble b))"
  let ?y = "b\<lparr>isFavorite := isFavorite (prev ! ?i)\<rparr>"
  from findIndex_found [OF True]
  have i: "?i < length prev" "id_ble (prev ! ?i) = id_ble b" by simp_all
  have "filter (\<lambda>r. id_ble r = id_ble ?y) (prev[?i := ?y]) = [?y]"
    using assms i by (intro filter_update_distinct) simp_all
  then have "filter (\<lambda>r. id_ble r = id_ble b) (prev[?i := ?y]) = [?y]" by simp
  then show ?thesis by (metis scanner_merge_found [OF True])
next
  case False
  then have neg: "findIndex prev (\<lambda>d. id_ble d = id_ble b) < 0" by simp
  then have "\<forall>x \<in> set prev. id_ble x \<noteq> id_ble b" by (simp add: findIndex_none)
  then have "filter (\<lambda>r. id_ble r = id_ble b) prev = []" by (simp add: filter_empty_conv)
  then have "filter (\<lambda>r. id_ble r = id_ble b) (prev @ [b]) = [b\<lparr>isFavorite := isFavorite b\<rparr>]"
    by simp
  then show ?thesis by (metis scanner_merge_new [OF neg])
qed

lemma observe_fields:
  "devices (observe dec now d st) = scannerOnDeviceFound (devices st) (processBLEDevice dec now d)"
  "discovered (observe dec now d st) = (discovered st)(id_dev d \<mapsto> processBLEDevice dec now d)"
  "ble_favorites (observe dec now d st) = ble_favorites st"
  by (simp_all add: observe_def scanCallback_def Let_def)

text \<open>Every list reached from the empty one by advertisements and toggles has one
  record per id.\<close>

lemma observeAll_distinct:
  "distinct (map id_ble (devices st)) \<Longrightarrow> distinct (map id_ble (devices (observeAll dec ads st)))"
proof (induction ads arbitrary: st)
  case Nil
  then show ?case by simp
next
  case (Cons a ads)
  obtain now device where a: "a = (now, device)" by (cases a)
  have "distinct (map id_ble (devices (observe dec now device st)))"
    using Cons.prems by (simp add: observe_fields scanner_merge_distinct)
  then show ?case using Cons.IH by (simp add: a)
qed

lemma flipFavorite_ids: "map id_ble (flipFavorite k ds) = map id_ble ds"
  by (induction ds) (simp_all add: flipFavorite_def)

text \<open>
  Claim C3, as the code has it.  When the advertised id is already in the Scanner
  screen's list, at its first position \<open>i\<close>, the merge replaces that entry by the fresh
  record with the stored \<open>isFavorite\<close> put back, and leaves the other entries alone:
  \<open>isFavorite\<close> is preserved, every other field comes from the fresh record, and
  \<open>isConnected\<close> becomes \<open>False\<close>.  The Map screen's merge stores the fresh record as it
  is.
\<close>

theorem merge_keeps_favorite_only:
  assumes "i < length prev" "id_ble (prev ! i) = id_dev device"
      and "\<forall>j<i. id_ble (prev ! j) \<noteq> id_dev device"
  shows "scannerOnDeviceFound prev (processBLEDevice dec now device)
           = prev[i := (processBLEDevice dec now device)\<lparr>isFavorite := isFavorite (prev ! i)\<rparr>]
         \<and> isFavorite (scannerOnDeviceFound prev (processBLEDevice dec now device) ! i)
             = isFavorite (prev ! i)
         \<and> isConnected (scannerOnDeviceFound prev (processBLEDevice dec now device) ! i) = False
         \<and> mapOnDeviceFound prev (processBLEDevice dec now device)
             = prev[i := processBLEDevice dec now device]"
proof -
  let ?b = "processBLEDevice dec now device"
  have fi: "findIndex prev (\<lambda>d. id_ble d = id_ble ?b) = int i"
    using assms by (intro findIndex_first) (simp_all add: process_fields)
  then have ge: "0 \<le> findIndex prev (\<lambda>d. id_ble d = id_ble ?b)" by simp
  have s: "scannerOnDeviceFound prev ?b = prev[i := ?b\<lparr>isFavorite := isFavorite (prev ! i)\<rparr>]"
    using scanner_merge_found [OF ge] by (simp add: fi)
  have m: "mapOnDeviceFound prev ?b = prev[i := ?b]"
    using map_merge_found [OF ge] by (simp add: fi)
  have f: "isFavorite (scannerOnDeviceFound prev ?b ! i) = isFavorite (prev ! i)"
    using assms(1) by (simp add: s)
  have c: "isConnected (scannerOnDeviceFound prev ?b ! i) = False"
    using assms(1) by (simp add: s process_fields)
  from s f c m show ?thesis by blast
qed

theorem merge_keeps_favorite_only_witness:
  "0 < length [connectedRecord] \<and> id_ble ([connectedRecord] ! 0) = id_dev nearDevice
   \<and> isFavorite connectedRecord
   \<and> isFavorite (scannerOnDeviceFound [connectedRecord] (processBLEDevice base64 2 nearDevice) ! 0)
   \<and> \<not> isConnected
          (scannerOnDeviceFound [connectedRecord] (processBLEDevice base64 2 nearDevice) ! 0)"
proof -
  have a: "0 < length [connectedRecord]" by simp
  have b: "id_ble ([connectedRecord] ! 0) = id_dev nearDevice"
    by (simp add: connectedRecord_def nearDevice_def)
  have c: "\<forall>j<0. id_ble ([connectedRecord] ! j) \<noteq> id_dev nearDevice" by simp
  have f: "isFavorite ([connectedRecord] ! 0)" by (simp add: connectedRecord_def)
  note t = merge_keeps_favorite_only [of 0 "[connectedRecord]" nearDevice base64 2, OF a b c]
  from t f have g:
    "isFavorite (scannerOnDeviceFound [connectedRecord] (processBLEDevice base64 2 nearDevice) ! 0)"
    by blast
  from t have h:
    "\<not> isConnected
        (scannerOnDeviceFound [connectedRecord] (processBLEDevice base64 2 nearDevice) ! 0)"
    by blast
  from f have f': "isFavorite connectedRecord" by simp
  from a b f' g h show ?thesis by blast
qed

text \<open>The stored record is connected; after the next advertisement for its id it is
  not.\<close>

theorem merge_resets_connected:
  "isConnected connectedRecord
   \<and> id_ble connectedRecord = id_dev nearDevice
   \<and> map isConnected (scannerOnDeviceFound [connectedRecord] (processBLEDevice base64 2 nearDevice))
       = [False]
   \<and> map isConnected (mapOnDeviceFound [connectedRecord] (processBLEDevice base64 2 nearDevice))
       = [False]"
proof -
  let ?b = "processBLEDevice base64 2 nearDevice"
  have i: "id_ble connectedRecord = id_ble ?b"
    by (simp add: process_fields connectedRecord_def nearDevice_def)
  have c: "isConnected connectedRecord"
    by (simp add: connectedRecord_def)
  have s: "map isConnected (scannerOnDeviceFound [connectedRecord] ?b) = [False]"
    using i by (simp add: scannerOnDeviceFound_def process_fields)
  have m: "map isConnected (mapOnDeviceFound [connectedRecord] ?b) = [False]"
    using i by (simp add: mapOnDeviceFound_def process_fields)
  from i c s m show ?thesis by (simp add: process_fields)
qed

text \<open>
  Claim C7.  Starting from a list with one record per id, two advertisements with the
  same id leave exactly one record for that id in the Scanner screen's list, with the
  time, the signal strength and the distance of the second advertisement; the service's
  map holds the second record under that id; and the list still has one record per id.
\<close>

theorem observe_twice:
  assumes "distinct (map id_ble (devices st))" "id_dev d1 = id_dev d2"
  shows "map (\<lambda>r. (lastSeen r, signalStrength r, distance r))
           (filter (\<lambda>r. id_ble r = id_dev d2)
              (devices (observe dec t2 d2 (observe dec t1 d1 st))))
           = [(t2, rssiOr d2, calculateDistance (rssiOr d2) None)]
         \<and> discovered (observe dec t2 d2 (observe dec t1 d1 st)) (id_dev d2)
             = Some (processBLEDevice dec t2 d2)
         \<and> distinct (map id_ble (devices (observe dec t2 d2 (observe dec t1 d1 st))))"
proof -
  let ?b2 = "processBLEDevice dec t2 d2"
  let ?s1 = "observe dec t1 d1 st"
  have d1: "distinct (map id_ble (devices ?s1))"
    using assms(1) by (simp add: observe_fields scanner_merge_distinct)
  then obtain fav where
    f: "filter (\<lambda>r. id_ble r = id_ble ?b2) (scannerOnDeviceFound (devices ?s1) ?b2)
          = [?b2\<lparr>isFavorite := fav\<rparr>]"
    using scanner_merge_filter by blast
  have a: "map (\<lambda>r. (lastSeen r, signalStrength r, distance r))
           (filter (\<lambda>r. id_ble r = id_dev d2) (devices (observe dec t2 d2 ?s1)))
         = [(t2, rssiOr d2, calculateDistance (rssiOr d2) None)]"
    using f by (simp add: observe_fields(1) [of dec t2 d2 ?s1] process_fields)
  have b: "discovered (observe dec t2 d2 ?s1) (id_dev d2) = Some ?b2"
    by (simp add: observe_fields(2) [of dec t2 d2 ?s1])
  have c: "distinct (map id_ble (devices (observe dec t2 d2 ?s1)))"
    using d1 by (simp add: observe_fields(1) [of dec t2 d2 ?s1] scanner_merge_distinct)
  from a b c show ?thesis by blast
qed

theorem observe_twice_witness:
  "distinct (map id_ble (devices emptyScanner)) \<and> id_dev tagDevice = id_dev nearDevice
   \<and> map (\<lambda>r. (lastSeen r, signalStrength r, distance r))
       (filter (\<lambda>r. id_ble r = ''A'')
          (devices (observe base64 2 nearDevice (observe base64 1 tagDevice emptyScanner))))
       = [(2, - 50, calculateDistance (- 50) None)]
   \<and> calculateDistance (- 50) None < calculateDistance (- 70) None"
proof -
  have a: "distinct (map id_ble (devices emptyScanner))"
    by (simp add: emptyScanner_def)
  have b: "id_dev tagDevice = id_dev nearDevice"
    by (simp add: tagDevice_def nearDevice_def)
  have i: "id_dev nearDevice = ''A''"
    by (simp add: nearDevice_def)
  have r: "rssiOr nearDevice = - 50"
    by (simp add: rssiOr_def nearDevice_def)
  note t = observe_twice [of emptyScanner tagDevice nearDevice base64 2 1, OF a b]
  from t have
    "map (\<lambda>r. (lastSeen r, signalStrength r, distance r))
       (filter (\<lambda>r. id_ble r = ''A'')
          (devices (observe base64 2 nearDevice (observe base64 1 tagDevice emptyScanner))))
       = [(2, - 50, calculateDistance (- 50) None)]"
    unfolding i r by blast
  with a b calculateDistance_closer show ?thesis by blast
qed

section \<open>Favorites\<close>

lemma flipFavorite_twice: "flipFavorite k (flipFavorite k ds) = ds"
  by (induction ds) (simp_all add: flipFavorite_def)

lemma toggle_fields:
  "devices (toggleFavorite w k captured st) = flipFavorite k (devices st)"
  "ble_favorites (toggleFavorite w k captured st) =
     saveFavorites w (map id_ble (filter isFavorite (flipFavorite k captured)))
       (ble_favorites st)"
  "discovered (toggleFavorite w k captured st) = discovered st"
  by (simp_all add: toggleFavorite_def Let_def)

text \<open>
  Claim C8, as the code has it.  Toggling the same id twice restores the list of devices,
  and with it every \<open>isFavorite\<close> flag, whatever lists the two calls captured.  When the
  second call captured the list the first call left and its write succeeds, the store
  then holds the ids of the favorite devices of the original list, which is the
  originally stored value whenever the store held those ids before the first toggle.
\<close>

theorem toggle_twice:
  "devices (toggleFavorite w2 k c2 (toggleFavorite w1 k c1 st)) = devices st
   \<and> (c2 = devices (toggleFavorite w1 k c1 st) \<longrightarrow>
        ble_favorites (toggleFavorite True k c2 (toggleFavorite w1 k c1 st))
          = Some (map id_ble (filter isFavorite (devices st))))
   \<and> (c2 = devices (toggleFavorite w1 k c1 st)
        \<and> ble_favorites st = Some (map id_ble (filter isFavorite (devices st))) \<longrightarrow>
        ble_favorites (toggleFavorite True k c2 (toggleFavorite w1 k c1 st)) = ble_favorites st)"
  by (simp add: toggle_fields flipFavorite_twice saveFavorites_def)

theorem toggle_twice_witness:
  "ble_favorites syncedStore = Some (map id_ble (filter isFavorite (devices syncedStore)))
   \<and> devices
        (toggleFavorite True ''A''
           (devices (toggleFavorite True ''A'' (devices syncedStore) syncedStore))
           (toggleFavorite True ''A'' (devices syncedStore) syncedStore))
       = devices syncedStore
   \<and> ble_favorites
        (toggleFavorite True ''A''
           (devices (toggleFavorite True ''A'' (devices syncedStore) syncedStore))
           (toggleFavorite True ''A'' (devices syncedStore) syncedStore))
       = Some [''A'']"
proof -
  let ?s1 = "toggleFavorite True ''A'' (devices syncedStore) syncedStore"
  have s: "ble_favorites syncedStore = Some (map id_ble (filter isFavorite (devices syncedStore)))"
    by (simp add: syncedStore_def connectedRecord_def)
  have v: "ble_favorites syncedStore = Some [''A'']"
    by (simp add: syncedStore_def)
  note t = toggle_twice [of True "''A''" "devices ?s1" True "devices syncedStore" syncedStore]
  from t have d: "devices (toggleFavorite True ''A'' (devices ?s1) ?s1) = devices syncedStore"
    by blast
  from t s have "ble_favorites (toggleFavorite True ''A'' (devices ?s1) ?s1)
       = ble_favorites syncedStore"
    by blast
  with v have f: "ble_favorites (toggleFavorite True ''A'' (devices ?s1) ?s1) = Some [''A'']"
    by simp
  from s d f show ?thesis by blast
qed

text \<open>The store holds an identifier that is not in the list; two toggles, each on the
  current list, leave it empty.\<close>

theorem toggle_twice_loses_stored:
  "ble_favorites staleStore = Some [''X'']
   \<and> ble_favorites
        (toggleFavorite True ''A''
           (devices (toggleFavorite True ''A'' (devices staleStore) staleStore))
           (toggleFavorite True ''A'' (devices staleStore) staleStore))
       = Some []"
  by (simp add: toggle_fields flipFavorite_twice saveFavorites_def staleStore_def
        connectedRecord_def)

text \<open>Two calls of the function of one render capture the same list: the flags are
  restored, and the store is left with the id that the first call saved.\<close>

lemma toggle_twice_one_render:
  "devices (toggleFavorite True ''A'' (devices staleStore)
              (toggleFavorite True ''A'' (devices staleStore) staleStore))
     = devices staleStore
   \<and> map isFavorite (devices staleStore) = [False]
   \<and> ble_favorites (toggleFavorite True ''A'' (devices staleStore)
                       (toggleFavorite True ''A'' (devices staleStore) staleStore))
       = Some [''A'']"
  by (simp add: toggle_fields flipFavorite_twice saveFavorites_def)
     (simp add: staleStore_def connectedRecord_def flipFavorite_def)

end
